theory Spec2Isabelle
  imports Main
begin

section \<open>Values, HTTP and errors\<close>

text \<open>
  Values that travel through the program are parsed JSON: what \<open>response.json()\<close>
  returns, what the handlers build as request bodies and what the credential dictionaries
  hold. Python dictionaries keep insertion order, so an object is an association list;
  \<open>map_of\<close> is the lookup. Floating-point numbers are left out.
\<close>

datatype json =
    JNull
  | JBool bool
  | JInt int
  | JStr string
  | JList "json list"
  | JDict "(string \<times> json) list"

type_synonym pydict = "(string \<times> json) list"

text \<open>Python truthiness, as \<open>if not token\<close> tests it.\<close>

fun truthy :: "json \<Rightarrow> bool" where
  "truthy JNull = False"
| "truthy (JBool b) = b"
| "truthy (JInt i) = (i \<noteq> 0)"
| "truthy (JStr s) = (s \<noteq> [])"
| "truthy (JList xs) = (xs \<noteq> [])"
| "truthy (JDict kvs) = (kvs \<noteq> [])"

text \<open>\<open>d.get(k)\<close>: the value, or \<open>None\<close> when the key is absent.\<close>

definition dict_get :: "pydict \<Rightarrow> string \<Rightarrow> json" where
  "dict_get d k = (case map_of d k of None \<Rightarrow> JNull | Some v \<Rightarrow> v)"

datatype http_method = GET | POST | PUT | PATCH | DELETE

datatype payload = No_payload | Json_payload json | Form_payload "(string \<times> string) list"

record request =
  http_method :: http_method
  url :: string
  headers :: "(string \<times> string) list"
  params :: "(string \<times> string) list"
  payload :: payload

record response =
  status_code :: int
  reason :: string
  response_url :: string
  content :: "json option"

text \<open>
  A call of the \<open>requests\<close> library either fails in transport (it raises a
  \<open>RequestException\<close>) or yields a response. \<open>content\<close> is \<open>None\<close> when the
  body is not JSON.
\<close>

datatype reply = Transport_failure | Response response

datatype error =
    ValueError string
  | TypeError
  | KeyError string
  | HTTPError int string
  | RequestException
  | JSONDecodeError
  | DecodeError
  | HTTPException int string

datatype json_response = JSONResponse int string

text \<open>
  What the process does to the outside and to its own dictionaries, in order: an
  outbound HTTP request, or an assignment \<open>authorization_data[k] = v\<close>.
\<close>

datatype event = Sent request | Wrote string pydict

text \<open>
  The surroundings of the program: the network, the library functions whose result is
  not computed here (\<open>json.dumps\<close>, \<open>str\<close> of a value that is not a string, base64),
  and \<open>todoist.callback\<close>, which the endpoint calls and which is not among the sources.
\<close>

record world =
  http :: "request \<Rightarrow> reply"
  json_dumps :: "json \<Rightarrow> string"
  py_str :: "json \<Rightarrow> string"
  b64encode :: "string \<Rightarrow> string"
  b64decode :: "json \<Rightarrow> error + string"
  todoist_callback ::
    "string option \<Rightarrow> string option \<Rightarrow> string option \<Rightarrow> event list \<times> (error + json)"

text \<open>The fields of \<open>settings.py\<close> that the code reads.\<close>

record settings =
  user_token_from_tg_bot :: string
  save_auth_data_endpoint :: string
  github_client_id :: string
  github_client_secret :: string

text \<open>
  Two modules each define a module-level \<open>authorization_data = {}\<close>:
  \<open>hackathon_utils.py\<close> (line 8), which \<open>save_authorization_data_and_return_response\<close>
  assigns to, and \<open>GitHub/actions.py\<close> (line 70), which the handlers read.
\<close>

type_synonym store = "string \<rightharpoonup> pydict"

record process =
  hackathon_utils_authorization_data :: store
  actions_authorization_data :: store

subsection \<open>Formatting integers\<close>

definition digit_char :: "nat \<Rightarrow> char" where
  "digit_char n = ''0123456789'' ! n"

function str_nat :: "nat \<Rightarrow> string" where
  "str_nat n = (if n < 10 then [digit_char n] else str_nat (n div 10) @ [digit_char (n mod 10)])"
  by pat_completeness auto
termination
  by (relation "measure id") auto

declare str_nat.simps [simp del]

definition str_int :: "int \<Rightarrow> string" where
  "str_int i = (if i < 0 then CHR ''-'' # str_nat (nat (- i)) else str_nat (nat i))"

subsection \<open>\<open>raise_for_status\<close> and \<open>response.json()\<close>\<close>

definition http_error_msg :: "string \<Rightarrow> response \<Rightarrow> string" where
  "http_error_msg kind r =
     str_int (status_code r) @ '' '' @ kind @ '' Error: '' @ reason r @ '' for url: '' @ response_url r"

definition raise_for_status :: "response \<Rightarrow> error + unit" where
  "raise_for_status r =
     (if 400 \<le> status_code r \<and> status_code r < 500
        then Inl (HTTPError (status_code r) (http_error_msg ''Client'' r))
      else if 500 \<le> status_code r \<and> status_code r < 600
        then Inl (HTTPError (status_code r) (http_error_msg ''Server'' r))
      else Inr ())"

definition response_json :: "response \<Rightarrow> error + json" where
  "response_json r = (case content r of None \<Rightarrow> Inl JSONDecodeError | Some j \<Rightarrow> Inr j)"

section \<open>The token broker\<close>

text \<open>\<open>'access_token' in x\<close> and \<open>x['access_token']\<close> on a parsed JSON value.\<close>

fun is_substring :: "string \<Rightarrow> string \<Rightarrow> bool" where
  "is_substring k [] = (k = [])"
| "is_substring k (c # cs) = (take (length k) (c # cs) = k \<or> is_substring k cs)"

fun py_contains :: "json \<Rightarrow> string \<Rightarrow> error + bool" where
  "py_contains (JDict kvs) k = Inr (map_of kvs k \<noteq> None)"
| "py_contains (JList xs) k = Inr (JStr k \<in> set xs)"
| "py_contains (JStr s) k = Inr (is_substring k s)"
| "py_contains _ k = Inl TypeError"

fun py_getitem :: "json \<Rightarrow> string \<Rightarrow> error + json" where
  "py_getitem (JDict kvs) k = (case map_of kvs k of None \<Rightarrow> Inl (KeyError k) | Some v \<Rightarrow> Inr v)"
| "py_getitem _ k = Inl TypeError"

definition save_request :: "world \<Rightarrow> settings \<Rightarrow> json \<Rightarrow> string \<Rightarrow> request" where
  "save_request w cfg authorization_data_response system_name =
     \<lparr> http_method = POST,
       url = save_auth_data_endpoint cfg,
       headers = [(''Authorization'', ''Bearer '' @ user_token_from_tg_bot cfg)],
       params = [],
       payload = Json_payload (JDict
         [(''system_name'', JStr system_name),
          (''authorization_data_json'', JStr (json_dumps w authorization_data_response))]) \<rparr>"

text \<open>The \<open>except requests.exceptions.HTTPError\<close> branch: the status chain of lines 51-72.\<close>

definition save_http_error :: "response \<Rightarrow> string \<Rightarrow> error" where
  "save_http_error resp msg =
     (if status_code resp = 400 then HTTPException 400 ''Bad request to save authorization data''
      else if status_code resp = 401 then HTTPException 401 ''Unauthorized to save authorization data''
      else if status_code resp = 403 then HTTPException 403 ''Forbidden to save authorization data''
      else if status_code resp = 404 then HTTPException 404 ''Endpoint to save authorization data not found''
      else if status_code resp \<ge> 500 then HTTPException 502 ''Server error while saving authorization data''
      else HTTPException 500 (''Unexpected error: '' @ msg))"

text \<open>
  \<open>save_authorization_data_and_return_response\<close>. The POST comes first; a transport
  failure and an \<open>HTTPError\<close> of \<open>raise_for_status\<close> are caught and turned into an
  \<open>HTTPException\<close>; the \<open>ValueError\<close> of line 36 (and a \<open>TypeError\<close> of the
  membership test or the subscript) is raised inside the \<open>try\<close> and matches no
  \<open>except\<close> clause. The dictionary assigned to is the one of \<open>hackathon_utils.py\<close>.
\<close>

definition save_authorization_data_and_return_response ::
  "world \<Rightarrow> settings \<Rightarrow> process \<Rightarrow> json \<Rightarrow> string \<Rightarrow> process \<times> event list \<times> (error + json_response)" where
  "save_authorization_data_and_return_response w cfg p authorization_data_response system_name =
     (let req = save_request w cfg authorization_data_response system_name in
      case http w req of
        Transport_failure \<Rightarrow>
          (p, [Sent req], Inl (HTTPException 500 ''Error occurred while saving authorization data''))
      | Response resp \<Rightarrow>
          (case raise_for_status resp of
             Inl (HTTPError sc msg) \<Rightarrow> (p, [Sent req], Inl (save_http_error resp msg))
           | Inl e \<Rightarrow> (p, [Sent req], Inl e)
           | Inr _ \<Rightarrow>
               (case py_contains authorization_data_response ''access_token'' of
                  Inl e \<Rightarrow> (p, [Sent req], Inl e)
                | Inr False \<Rightarrow>
                    (p, [Sent req],
                     Inl (ValueError ''No access token found in authorization_data_response''))
                | Inr True \<Rightarrow>
                    (case py_getitem authorization_data_response ''access_token'' of
                       Inl e \<Rightarrow> (p, [Sent req], Inl e)
                     | Inr t \<Rightarrow>
                         (p\<lparr>hackathon_utils_authorization_data :=
                              (hackathon_utils_authorization_data p)
                                (system_name \<mapsto> [(''access_token'', t)])\<rparr>,
                          [Sent req, Wrote system_name [(''access_token'', t)]],
                          Inr (if status_code resp = 200
                               then JSONResponse 200 ''Authorization successful and data saved.''
                               else JSONResponse (status_code resp)
                                      (''Unexpected response: '' @ str_int (status_code resp))))))))"

text \<open>\<open>GET /todoist/get-token\<close>.\<close>

definition get_todoist_token ::
  "world \<Rightarrow> settings \<Rightarrow> process \<Rightarrow> string option \<Rightarrow> string option \<Rightarrow> string option
     \<Rightarrow> process \<times> event list \<times> (error + json_response)" where
  "get_todoist_token w cfg p code state err =
     (if err = Some ''invalid_application_status''
        then (p, [], Inl (HTTPException 500 ''Invalid application status''))
      else if err = Some ''invalid_scope''
        then (p, [], Inl (HTTPException 400 ''Invalid scope''))
      else if err = Some ''access_denied''
        then (p, [], Inl (HTTPException 403 ''User denied authorization''))
      else
        (case todoist_callback w code state err of
           (evs, Inl e) \<Rightarrow> (p, evs, Inl e)
         | (evs, Inr authorization_token) \<Rightarrow>
             (case save_authorization_data_and_return_response w cfg p authorization_token ''Todoist'' of
                (p', evs', r) \<Rightarrow> (p', evs @ evs', r))))"

text \<open>\<open>GET /github/get-token\<close>. \<open>not code\<close> holds for \<open>None\<close> and for the empty string.\<close>

definition exchange_request :: "settings \<Rightarrow> string \<Rightarrow> request" where
  "exchange_request cfg code =
     \<lparr> http_method = POST,
       url = ''https://github.com/login/oauth/access_token'',
       headers = [(''Accept'', ''application/json'')],
       params = [],
       payload = Form_payload
         [(''client_id'', github_client_id cfg),
          (''client_secret'', github_client_secret cfg),
          (''code'', code)] \<rparr>"

definition get_github_token ::
  "world \<Rightarrow> settings \<Rightarrow> process \<Rightarrow> string option \<Rightarrow> string option
     \<Rightarrow> process \<times> event list \<times> (error + json_response)" where
  "get_github_token w cfg p code err =
     (if err = Some ''access_denied''
        then (p, [], Inl (HTTPException 403 ''User denied authorization''))
      else
        (case code of
           None \<Rightarrow> (p, [], Inl (HTTPException 400 ''Authorization code is missing''))
         | Some c \<Rightarrow>
             if c = [] then (p, [], Inl (HTTPException 400 ''Authorization code is missing''))
             else
               (let req = exchange_request cfg c in
                case http w req of
                  Transport_failure \<Rightarrow> (p, [Sent req], Inl RequestException)
                | Response resp \<Rightarrow>
                    (case raise_for_status resp of
                       Inl e \<Rightarrow> (p, [Sent req], Inl e)
                     | Inr _ \<Rightarrow>
                         (case response_json resp of
                            Inl e \<Rightarrow> (p, [Sent req], Inl e)
                          | Inr auth_data \<Rightarrow>
                              (case save_authorization_data_and_return_response w cfg p auth_data ''GitHub'' of
                                 (p', evs', r) \<Rightarrow> (p', Sent req # evs', r)))))))"

section \<open>The GitHub action handlers\<close>

text \<open>
  Every handler starts with
  \<^verbatim>\<open>token = authorization_data.get("GitHub", {}).get("access_token")\<close> and
  \<^verbatim>\<open>if not token: raise ValueError(...)\<close>, on the dictionary of \<open>actions.py\<close>.
\<close>

definition github_token :: "process \<Rightarrow> json" where
  "github_token p =
     dict_get (case actions_authorization_data p ''GitHub'' of None \<Rightarrow> [] | Some entry \<Rightarrow> entry)
       ''access_token''"

definition missing_token :: error where
  "missing_token = ValueError ''Authorization token for GitHub is missing.''"

text \<open>The f-string \<open>f"Bearer {token}"\<close>: a string is inserted as it is.\<close>

definition github_headers :: "world \<Rightarrow> json \<Rightarrow> (string \<times> string) list" where
  "github_headers w token =
     [(''Authorization'', ''Bearer '' @ (case token of JStr s \<Rightarrow> s | _ \<Rightarrow> py_str w token)),
      (''Accept'', ''application/vnd.github+json'')]"

definition opt_str :: "string option \<Rightarrow> json" where
  "opt_str x = (case x of None \<Rightarrow> JNull | Some s \<Rightarrow> JStr s)"

definition opt_strs :: "string list option \<Rightarrow> json" where
  "opt_strs x = (case x of None \<Rightarrow> JNull | Some xs \<Rightarrow> JList (map JStr xs))"

definition message :: "string \<Rightarrow> json" where
  "message m = JDict [(''message'', JStr m)]"

fun join_commas :: "string list \<Rightarrow> string" where
  "join_commas [] = []"
| "join_commas [x] = x"
| "join_commas (x # y # ys) = x @ '','' @ join_commas (y # ys)"

text \<open>
  One call of \<open>requests\<close>: the request is sent, a transport failure raises, and the
  rest of the handler runs on the response.
\<close>

definition call ::
  "world \<Rightarrow> request \<Rightarrow> (response \<Rightarrow> event list \<times> (error + json)) \<Rightarrow> event list \<times> (error + json)" where
  "call w req k =
     (case http w req of
        Transport_failure \<Rightarrow> ([Sent req], Inl RequestException)
      | Response r \<Rightarrow> (case k r of (evs, res) \<Rightarrow> (Sent req # evs, res)))"

text \<open>\<open>response.raise_for_status(); return response.json()\<close>.\<close>

definition checked_json :: "response \<Rightarrow> event list \<times> (error + json)" where
  "checked_json r = ([], case raise_for_status r of Inl e \<Rightarrow> Inl e | Inr _ \<Rightarrow> response_json r)"

text \<open>
  The tail of the delete and star handlers:
  \<^verbatim>\<open>if response.status_code == 204: return {"message": ok}\<close>
  \<^verbatim>\<open>else: response.raise_for_status(); return {"message": failed}\<close>.
\<close>

definition checked_message :: "string \<Rightarrow> string \<Rightarrow> response \<Rightarrow> event list \<times> (error + json)" where
  "checked_message ok failed r =
     ([], if status_code r = 204 then Inr (message ok)
          else (case raise_for_status r of Inl e \<Rightarrow> Inl e | Inr _ \<Rightarrow> Inr (message failed)))"

definition api :: "string \<Rightarrow> string" where
  "api path = ''https://api.github.com/'' @ path"

definition create_issue ::
  "world \<Rightarrow> process \<Rightarrow> string \<Rightarrow> string \<Rightarrow> string option \<Rightarrow> string list option
     \<Rightarrow> event list \<times> (error + json)" where
  "create_issue w p repo title body labels =
     (let token = github_token p in
      if \<not> truthy token then ([], Inl missing_token)
      else call w
        \<lparr> http_method = POST, url = api (''repos/'' @ repo @ ''/issues''),
          headers = github_headers w token, params = [],
          payload = Json_payload (JDict
            [(''title'', JStr title), (''body'', opt_str body), (''labels'', opt_strs labels)]) \<rparr>
        checked_json)"

definition create_repository ::
  "world \<Rightarrow> process \<Rightarrow> string \<Rightarrow> string option \<Rightarrow> bool \<Rightarrow> event list \<times> (error + json)" where
  "create_repository w p name description private =
     (let token = github_token p in
      if \<not> truthy token then ([], Inl missing_token)
      else call w
        \<lparr> http_method = POST, url = api ''user/repos'',
          headers = github_headers w token, params = [],
          payload = Json_payload (JDict
            [(''name'', JStr name), (''description'', opt_str description),
             (''private'', JBool private)]) \<rparr>
        checked_json)"

definition delete_repository :: "world \<Rightarrow> process \<Rightarrow> string \<Rightarrow> event list \<times> (error + json)" where
  "delete_repository w p repo =
     (let token = github_token p in
      if \<not> truthy token then ([], Inl missing_token)
      else call w
        \<lparr> http_method = DELETE, url = api (''repos/'' @ repo),
          headers = github_headers w token, params = [], payload = No_payload \<rparr>
        (checked_message ''Repository deleted successfully.'' ''Failed to delete repository.''))"

definition get_issue :: "world \<Rightarrow> process \<Rightarrow> string \<Rightarrow> int \<Rightarrow> event list \<times> (error + json)" where
  "get_issue w p repo issue_number =
     (let token = github_token p in
      if \<not> truthy token then ([], Inl missing_token)
      else call w
        \<lparr> http_method = GET, url = api (''repos/'' @ repo @ ''/issues/'' @ str_int issue_number),
          headers = github_headers w token, params = [], payload = No_payload \<rparr>
        checked_json)"

text \<open>\<open>update_issue\<close> drops the keys whose value is \<open>None\<close> from the body.\<close>

definition update_issue ::
  "world \<Rightarrow> process \<Rightarrow> string \<Rightarrow> int \<Rightarrow> string option \<Rightarrow> string option \<Rightarrow> string option
     \<Rightarrow> string list option \<Rightarrow> event list \<times> (error + json)" where
  "update_issue w p repo issue_number title body state assignees =
     (let token = github_token p in
      if \<not> truthy token then ([], Inl missing_token)
      else
        (let data = filter (\<lambda>(k, v). v \<noteq> JNull)
               [(''title'', opt_str title), (''body'', opt_str body), (''state'', opt_str state),
                (''assignees'', opt_strs assignees)]
         in call w
           \<lparr> http_method = PATCH,
             url = api (''repos/Fugaret/'' @ repo @ ''/issues/'' @ str_int issue_number),
             headers = github_headers w token, params = [],
             payload = Json_payload (JDict data) \<rparr>
           checked_json))"

definition close_issue :: "world \<Rightarrow> process \<Rightarrow> string \<Rightarrow> int \<Rightarrow> event list \<times> (error + json)" where
  "close_issue w p repo issue_number =
     (let token = github_token p in
      if \<not> truthy token then ([], Inl missing_token)
      else call w
        \<lparr> http_method = PATCH,
          url = api (''repos/Fugaret/'' @ repo @ ''/issues/'' @ str_int issue_number),
          headers = github_headers w token, params = [],
          payload = Json_payload (JDict [(''state'', JStr ''closed'')]) \<rparr>
        checked_json)"

text \<open>
  \<open>list_issues\<close>: \<open>state or "open"\<close>, \<open>",".join(labels) if labels else None\<close>, and
  the parameters that are \<open>None\<close> are dropped.
\<close>

definition list_issues_params ::
  "string option \<Rightarrow> string list option \<Rightarrow> string option \<Rightarrow> (string \<times> string) list" where
  "list_issues_params state labels assignee =
     List.map_filter (\<lambda>(k, v). map_option (Pair k) v)
       [(''state'', Some (case state of None \<Rightarrow> ''open'' | Some s \<Rightarrow> if s = [] then ''open'' else s)),
        (''labels'', (case labels of None \<Rightarrow> None
                      | Some ls \<Rightarrow> if ls = [] then None else Some (join_commas ls))),
        (''assignee'', assignee)]"

definition list_issues ::
  "world \<Rightarrow> process \<Rightarrow> string \<Rightarrow> string option \<Rightarrow> string list option \<Rightarrow> string option
     \<Rightarrow> event list \<times> (error + json)" where
  "list_issues w p repo state labels assignee =
     (let token = github_token p in
      if \<not> truthy token then ([], Inl missing_token)
      else call w
        \<lparr> http_method = GET, url = api (''repos/'' @ repo @ ''/issues''),
          headers = github_headers w token,
          params = list_issues_params state labels assignee, payload = No_payload \<rparr>
        checked_json)"

definition get_repository_info :: "world \<Rightarrow> process \<Rightarrow> string \<Rightarrow> event list \<times> (error + json)" where
  "get_repository_info w p repo =
     (let token = github_token p in
      if \<not> truthy token then ([], Inl missing_token)
      else call w
        \<lparr> http_method = GET, url = api (''repos/Fugaret/'' @ repo),
          headers = github_headers w token, params = [], payload = No_payload \<rparr>
        checked_json)"

definition star_repository :: "world \<Rightarrow> process \<Rightarrow> string \<Rightarrow> event list \<times> (error + json)" where
  "star_repository w p repo =
     (let token = github_token p in
      if \<not> truthy token then ([], Inl missing_token)
      else call w
        \<lparr> http_method = PUT, url = api (''user/starred/'' @ repo),
          headers = github_headers w token, params = [], payload = No_payload \<rparr>
        (checked_message ''Repository starred successfully.'' ''Failed to star repository.''))"

definition unstar_repository :: "world \<Rightarrow> process \<Rightarrow> string \<Rightarrow> event list \<times> (error + json)" where
  "unstar_repository w p repo =
     (let token = github_token p in
      if \<not> truthy token then ([], Inl missing_token)
      else call w
        \<lparr> http_method = DELETE, url = api (''user/starred/'' @ repo),
          headers = github_headers w token, params = [], payload = No_payload \<rparr>
        (checked_message ''Repository unstarred successfully.'' ''Failed to unstar repository.''))"

definition list_branches :: "world \<Rightarrow> process \<Rightarrow> string \<Rightarrow> event list \<times> (error + json)" where
  "list_branches w p repo =
     (let token = github_token p in
      if \<not> truthy token then ([], Inl missing_token)
      else call w
        \<lparr> http_method = GET, url = api (''repos/'' @ repo @ ''/branches''),
          headers = github_headers w token, params = [], payload = No_payload \<rparr>
        checked_json)"

definition create_branch ::
  "world \<Rightarrow> process \<Rightarrow> string \<Rightarrow> string \<Rightarrow> string \<Rightarrow> event list \<times> (error + json)" where
  "create_branch w p repo branch_name commit_sha =
     (let token = github_token p in
      if \<not> truthy token then ([], Inl missing_token)
      else call w
        \<lparr> http_method = POST, url = api (''repos/'' @ repo @ ''/git/refs''),
          headers = github_headers w token, params = [],
          payload = Json_payload (JDict
            [(''ref'', JStr (''refs/heads/'' @ branch_name)), (''sha'', JStr commit_sha)]) \<rparr>
        checked_json)"

definition delete_branch ::
  "world \<Rightarrow> process \<Rightarrow> string \<Rightarrow> string \<Rightarrow> event list \<times> (error + json)" where
  "delete_branch w p repo branch_name =
     (let token = github_token p in
      if \<not> truthy token then ([], Inl missing_token)
      else call w
        \<lparr> http_method = DELETE,
          url = api (''repos/Fugaret/'' @ repo @ ''/git/refs/heads/'' @ branch_name),
          headers = github_headers w token, params = [], payload = No_payload \<rparr>
        (checked_message ''Branch deleted successfully.'' ''Failed to delete branch.''))"

text \<open>
  \<open>get_file_content\<close>: after \<open>raise_for_status\<close>, \<open>file_data['content']\<close> is
  decoded from base64 and then as UTF-8 (\<open>b64decode\<close> of the world stands for both).
\<close>

definition contents_url :: "string \<Rightarrow> string \<Rightarrow> string" where
  "contents_url repo file_path = api (''repos/'' @ repo @ ''/contents/'' @ file_path)"

definition decoded_content :: "world \<Rightarrow> response \<Rightarrow> event list \<times> (error + json)" where
  "decoded_content w r =
     ([], case raise_for_status r of
            Inl e \<Rightarrow> Inl e
          | Inr _ \<Rightarrow>
              (case response_json r of
                 Inl e \<Rightarrow> Inl e
               | Inr file_data \<Rightarrow>
                   (case py_getitem file_data ''content'' of
                      Inl e \<Rightarrow> Inl e
                    | Inr c \<Rightarrow>
                        (case b64decode w c of
                           Inl e \<Rightarrow> Inl e
                         | Inr file_content \<Rightarrow> Inr (JDict [(''file_content'', JStr file_content)])))))"

definition get_file_content ::
  "world \<Rightarrow> process \<Rightarrow> string \<Rightarrow> string \<Rightarrow> string \<Rightarrow> event list \<times> (error + json)" where
  "get_file_content w p repo file_path branch =
     (let token = github_token p in
      if \<not> truthy token then ([], Inl missing_token)
      else call w
        \<lparr> http_method = GET, url = contents_url repo file_path,
          headers = github_headers w token, params = [(''ref'', branch)], payload = No_payload \<rparr>
        (decoded_content w))"

definition create_file ::
  "world \<Rightarrow> process \<Rightarrow> string \<Rightarrow> string \<Rightarrow> string \<Rightarrow> string \<Rightarrow> string
     \<Rightarrow> event list \<times> (error + json)" where
  "create_file w p repo file_path content_text branch commit_message =
     (let token = github_token p in
      if \<not> truthy token then ([], Inl missing_token)
      else call w
        \<lparr> http_method = PUT, url = contents_url repo file_path,
          headers = github_headers w token, params = [],
          payload = Json_payload (JDict
            [(''message'', JStr commit_message), (''content'', JStr (b64encode w content_text)),
             (''branch'', JStr branch)]) \<rparr>
        checked_json)"

text \<open>
  \<open>update_file\<close> and \<open>delete_file\<close> first GET the file to read its \<open>sha\<close>
  (\<open>get_response.raise_for_status()\<close>, \<open>file_data["sha"]\<close>), then send the main request.
\<close>

definition with_file_sha ::
  "world \<Rightarrow> json \<Rightarrow> string \<Rightarrow> string \<Rightarrow> string \<Rightarrow> (json \<Rightarrow> event list \<times> (error + json))
     \<Rightarrow> event list \<times> (error + json)" where
  "with_file_sha w token repo file_path branch k =
     call w
       \<lparr> http_method = GET, url = contents_url repo file_path,
         headers = github_headers w token, params = [(''ref'', branch)], payload = No_payload \<rparr>
       (\<lambda>get_response.
          case raise_for_status get_response of
            Inl e \<Rightarrow> ([], Inl e)
          | Inr _ \<Rightarrow>
              (case response_json get_response of
                 Inl e \<Rightarrow> ([], Inl e)
               | Inr file_data \<Rightarrow>
                   (case py_getitem file_data ''sha'' of
                      Inl e \<Rightarrow> ([], Inl e)
                    | Inr file_sha \<Rightarrow> k file_sha)))"

definition update_file ::
  "world \<Rightarrow> process \<Rightarrow> string \<Rightarrow> string \<Rightarrow> string \<Rightarrow> string \<Rightarrow> string
     \<Rightarrow> event list \<times> (error + json)" where
  "update_file w p repo file_path content_text branch commit_message =
     (let token = github_token p in
      if \<not> truthy token then ([], Inl missing_token)
      else with_file_sha w token repo file_path branch (\<lambda>file_sha.
        call w
          \<lparr> http_method = PUT, url = contents_url repo file_path,
            headers = github_headers w token, params = [],
            payload = Json_payload (JDict
              [(''message'', JStr commit_message), (''content'', JStr (b64encode w content_text)),
               (''sha'', file_sha), (''branch'', JStr branch)]) \<rparr>
          checked_json))"

definition delete_file ::
  "world \<Rightarrow> process \<Rightarrow> string \<Rightarrow> string \<Rightarrow> string \<Rightarrow> string \<Rightarrow> event list \<times> (error + json)" where
  "delete_file w p repo file_path branch commit_message =
     (let token = github_token p in
      if \<not> truthy token then ([], Inl missing_token)
      else with_file_sha w token repo file_path branch (\<lambda>file_sha.
        call w
          \<lparr> http_method = DELETE, url = contents_url repo file_path,
            headers = github_headers w token, params = [],
            payload = Json_payload (JDict
              [(''message'', JStr commit_message), (''sha'', file_sha), (''branch'', JStr branch)]) \<rparr>
          (\<lambda>r. ([], case raise_for_status r of
                       Inl e \<Rightarrow> Inl e
                     | Inr _ \<Rightarrow> Inr (message ''File deleted successfully.'')))))"

definition create_pull_request ::
  "world \<Rightarrow> process \<Rightarrow> string \<Rightarrow> string \<Rightarrow> string \<Rightarrow> string \<Rightarrow> string
     \<Rightarrow> event list \<times> (error + json)" where
  "create_pull_request w p repo title head base body =
     (let token = github_token p in
      if \<not> truthy token then ([], Inl missing_token)
      else call w
        \<lparr> http_method = POST, url = api (''repos/'' @ repo @ ''/pulls''),
          headers = github_headers w token, params = [],
          payload = Json_payload (JDict
            [(''title'', JStr title), (''head'', JStr head), (''base'', JStr base),
             (''body'', JStr body)]) \<rparr>
        checked_json)"

definition list_pull_requests ::
  "world \<Rightarrow> process \<Rightarrow> string \<Rightarrow> string \<Rightarrow> event list \<times> (error + json)" where
  "list_pull_requests w p repo state =
     (let token = github_token p in
      if \<not> truthy token then ([], Inl missing_token)
      else call w
        \<lparr> http_method = GET, url = api (''repos/'' @ repo @ ''/pulls''),
          headers = github_headers w token, params = [(''state'', state)], payload = No_payload \<rparr>
        checked_json)"

definition merge_pull_request ::
  "world \<Rightarrow> process \<Rightarrow> string \<Rightarrow> int \<Rightarrow> string \<Rightarrow> event list \<times> (error + json)" where
  "merge_pull_request w p repo pull_number commit_message =
     (let token = github_token p in
      if \<not> truthy token then ([], Inl missing_token)
      else call w
        \<lparr> http_method = PUT,
          url = api (''repos/'' @ repo @ ''/pulls/'' @ str_int pull_number @ ''/merge''),
          headers = github_headers w token, params = [],
          payload = Json_payload (JDict [(''commit_message'', JStr commit_message)]) \<rparr>
        checked_json)"

definition close_pull_request ::
  "world \<Rightarrow> process \<Rightarrow> string \<Rightarrow> int \<Rightarrow> event list \<times> (error + json)" where
  "close_pull_request w p repo pull_number =
     (let token = github_token p in
      if \<not> truthy token then ([], Inl missing_token)
      else call w
        \<lparr> http_method = PATCH, url = api (''repos/'' @ repo @ ''/pulls/'' @ str_int pull_number),
          headers = github_headers w token, params = [],
          payload = Json_payload (JDict [(''state'', JStr ''closed'')]) \<rparr>
        checked_json)"

subsection \<open>The registered actions\<close>

text \<open>
  The twenty-one functions that \<open>actions.py\<close> registers, each with its arguments after
  binding (a parameter with a default value carries the value the call ends up with).
\<close>

datatype action =
    Create_issue string string "string option" "string list option"
  | Create_repository string "string option" bool
  | Delete_repository string
  | Get_issue string int
  | Update_issue string int "string option" "string option" "string option" "string list option"
  | Close_issue string int
  | List_issues string "string option" "string list option" "string option"
  | Get_repository_info string
  | Star_repository string
  | Unstar_repository string
  | List_branches string
  | Create_branch string string string
  | Delete_branch string string
  | Get_file_content string string string
  | Create_file string string string string string
  | Update_file string string string string string
  | Delete_file string string string string
  | Create_pull_request string string string string string
  | List_pull_requests string string
  | Merge_pull_request string int string
  | Close_pull_request string int

fun run_action :: "world \<Rightarrow> process \<Rightarrow> action \<Rightarrow> event list \<times> (error + json)" where
  "run_action w p (Create_issue repo title body labels) = create_issue w p repo title body labels"
| "run_action w p (Create_repository name description private) =
     create_repository w p name description private"
| "run_action w p (Delete_repository repo) = delete_repository w p repo"
| "run_action w p (Get_issue repo n) = get_issue w p repo n"
| "run_action w p (Update_issue repo n title body state assignees) =
     update_issue w p repo n title body state assignees"
| "run_action w p (Close_issue repo n) = close_issue w p repo n"
| "run_action w p (List_issues repo state labels assignee) = list_issues w p repo state labels assignee"
| "run_action w p (Get_repository_info repo) = get_repository_info w p repo"
| "run_action w p (Star_repository repo) = star_repository w p repo"
| "run_action w p (Unstar_repository repo) = unstar_repository w p repo"
| "run_action w p (List_branches repo) = list_branches w p repo"
| "run_action w p (Create_branch repo branch_name commit_sha) =
     create_branch w p repo branch_name commit_sha"
| "run_action w p (Delete_branch repo branch_name) = delete_branch w p repo branch_name"
| "run_action w p (Get_file_content repo file_path branch) = get_file_content w p repo file_path branch"
| "run_action w p (Create_file repo file_path content_text branch msg) =
     create_file w p repo file_path content_text branch msg"
| "run_action w p (Update_file repo file_path content_text branch msg) =
     update_file w p repo file_path content_text branch msg"
| "run_action w p (Delete_file repo file_path branch msg) = delete_file w p repo file_path branch msg"
| "run_action w p (Create_pull_request repo title head base body) =
     create_pull_request w p repo title head base body"
| "run_action w p (List_pull_requests repo state) = list_pull_requests w p repo state"
| "run_action w p (Merge_pull_request repo n msg) = merge_pull_request w p repo n msg"
| "run_action w p (Close_pull_request repo n) = close_pull_request w p repo n"

section \<open>Example surroundings\<close>

text \<open>
  Concrete settings, process states and worlds on which the theorems below are run. In
  \<open>answering sc rsn body\<close> every request gets a response with status \<open>sc\<close>, reason
  \<open>rsn\<close> and JSON body \<open>body\<close>; in \<open>unreachable\<close> every request fails in transport.
\<close>

definition example_settings :: settings where
  "example_settings =
     \<lparr> user_token_from_tg_bot = ''bot-token'',
       save_auth_data_endpoint = ''https://backend.example/save-authorization-data'',
       github_client_id = ''client-id'',
       github_client_secret = ''client-secret'' \<rparr>"

definition fresh :: process where
  "fresh = \<lparr> hackathon_utils_authorization_data = Map.empty,
             actions_authorization_data = Map.empty \<rparr>"

definition authorized :: "json \<Rightarrow> process" where
  "authorized t =
     \<lparr> hackathon_utils_authorization_data = Map.empty,
       actions_authorization_data = [''GitHub'' \<mapsto> [(''access_token'', t)]] \<rparr>"

definition world_of :: "(request \<Rightarrow> reply) \<Rightarrow> world" where
  "world_of net =
     \<lparr> http = net,
       json_dumps = (\<lambda>j. ''{}''),
       py_str = (\<lambda>j. ''None''),
       b64encode = (\<lambda>s. s),
       b64decode = (\<lambda>j. case j of JStr s \<Rightarrow> Inr s | _ \<Rightarrow> Inl TypeError),
       todoist_callback = (\<lambda>code state err. ([], Inl RequestException)) \<rparr>"

definition answering :: "int \<Rightarrow> string \<Rightarrow> json option \<Rightarrow> world" where
  "answering sc rsn body =
     world_of (\<lambda>req. Response \<lparr> status_code = sc, reason = rsn, response_url = url req, content = body \<rparr>)"

definition unreachable :: world where
  "unreachable = world_of (\<lambda>req. Transport_failure)"

definition token_payload :: json where
  "token_payload = JDict [(''access_token'', JStr ''gho_abc''), (''token_type'', JStr ''bearer'')]"

definition tokenless_payload :: json where
  "tokenless_payload = JDict [(''token_type'', JStr ''bearer'')]"

text \<open>The events of a run that are outbound requests, and those that are store writes.\<close>

definition sent_urls :: "event list \<Rightarrow> string list" where
  "sent_urls evs = concat (map (\<lambda>e. case e of Sent req \<Rightarrow> [url req] | Wrote k v \<Rightarrow> []) evs)"

definition writes :: "event list \<Rightarrow> (string \<times> pydict) list" where
  "writes evs = concat (map (\<lambda>e. case e of Sent req \<Rightarrow> [] | Wrote k v \<Rightarrow> [(k, v)]) evs)"

text \<open>
  A run propagates provider errors when the error that \<open>raise_for_status\<close> raises on
  the response to any request it sent is the outcome of the run.
\<close>

definition propagates :: "world \<Rightarrow> event list \<times> (error + json) \<Rightarrow> bool" where
  "propagates w run =
     (\<forall>req r e. Sent req \<in> set (fst run) \<longrightarrow> http w req = Response r \<longrightarrow>
        raise_for_status r = Inl e \<longrightarrow> snd run = Inl e)"

definition previously_authorized :: process where
  "previously_authorized =
     \<lparr> hackathon_utils_authorization_data =
         [''Todoist'' \<mapsto> [(''access_token'', JStr ''td_old'')],
          ''GitHub'' \<mapsto> [(''access_token'', JStr ''gho_old''), (''scope'', JStr ''repo'')]],
       actions_authorization_data = Map.empty \<rparr>"

definition example_issue :: action where
  "example_issue = Create_issue ''a/b'' ''t'' None None"

definition example_issue_request :: request where
  "example_issue_request =
     \<lparr> http_method = POST, url = ''https://api.github.com/repos/a/b/issues'',
       headers = [(''Authorization'', ''Bearer gho_abc''), (''Accept'', ''application/vnd.github+json'')],
       params = [],
       payload = Json_payload (JDict [(''title'', JStr ''t''), (''body'', JNull), (''labels'', JNull)]) \<rparr>"

definition example_star_request :: request where
  "example_star_request =
     \<lparr> http_method = PUT, url = ''https://api.github.com/user/starred/a/b'',
       headers = [(''Authorization'', ''Bearer gho_abc''), (''Accept'', ''application/vnd.github+json'')],
       params = [], payload = No_payload \<rparr>"

section \<open>Helper lemmas\<close>

lemmas handler_defs =
  create_issue_def create_repository_def delete_repository_def get_issue_def update_issue_def
  close_issue_def list_issues_def get_repository_info_def star_repository_def
  unstar_repository_def list_branches_def create_branch_def delete_branch_def
  get_file_content_def create_file_def update_file_def delete_file_def
  create_pull_request_def list_pull_requests_def merge_pull_request_def close_pull_request_def

lemmas world_defs = answering_def unreachable_def world_of_def

lemmas save_defs = save_authorization_data_and_return_response_def save_request_def Let_def

lemma str_int_304: "str_int 304 = ''304''"
  by (simp add: str_int_def str_nat.simps digit_char_def)

lemma str_int_404: "str_int 404 = ''404''"
  by (simp add: str_int_def str_nat.simps digit_char_def)

lemma no_token_no_call:
  "\<not> truthy (github_token p) \<Longrightarrow> run_action w p a = ([], Inl missing_token)"
  by (cases a) (simp_all add: handler_defs)

lemma raise_for_status_error:
  "400 \<le> status_code r \<Longrightarrow> status_code r < 600 \<Longrightarrow>
     \<exists>msg. raise_for_status r = Inl (HTTPError (status_code r) msg)"
  by (simp add: raise_for_status_def)

lemma raise_for_status_not_204: "raise_for_status r = Inl e \<Longrightarrow> status_code r \<noteq> 204"
  by (auto simp add: raise_for_status_def split: if_splits)

lemma propagates_silent: "propagates w ([], res)"
  by (simp add: propagates_def)

lemma propagates_call:
  assumes raised: "\<And>r e. http w req = Response r \<Longrightarrow> raise_for_status r = Inl e \<Longrightarrow> k r = ([], Inl e)"
    and passed: "\<And>r u. http w req = Response r \<Longrightarrow> raise_for_status r = Inr u \<Longrightarrow> propagates w (k r)"
  shows "propagates w (call w req k)"
proof (cases "http w req")
  case Transport_failure
  then show ?thesis by (auto simp add: propagates_def call_def)
next
  case (Response r1)
  show ?thesis
  proof (cases "raise_for_status r1")
    case (Inl e1)
    with Response raised [of r1 e1] show ?thesis
      by (auto simp add: propagates_def call_def)
  next
    case (Inr u)
    with Response passed [of r1 u] show ?thesis
      by (auto simp add: propagates_def call_def split: prod.splits)
  qed
qed

lemma propagates_checked_json: "propagates w (call w req checked_json)"
  by (rule propagates_call) (simp_all add: checked_json_def propagates_silent)

lemma propagates_checked_message: "propagates w (call w req (checked_message ok failed))"
  by (rule propagates_call)
     (simp_all add: checked_message_def propagates_silent raise_for_status_not_204)

lemma propagates_decoded_content: "propagates w (call w req (decoded_content w))"
  by (rule propagates_call) (simp_all add: decoded_content_def propagates_silent)

lemma propagates_with_file_sha:
  assumes "\<And>file_sha. propagates w (k file_sha)"
  shows "propagates w (with_file_sha w token repo file_path branch k)"
  unfolding with_file_sha_def
  by (rule propagates_call) (auto simp add: assms propagates_silent split: sum.splits)

lemma propagates_deleted:
  "propagates w (call w req (\<lambda>r. ([], case raise_for_status r of Inl e \<Rightarrow> Inl e
       | Inr _ \<Rightarrow> Inr (message m))))"
  by (rule propagates_call) (simp_all add: propagates_silent)

lemmas propagates_intros =
  propagates_silent propagates_checked_json propagates_checked_message
  propagates_decoded_content propagates_with_file_sha propagates_deleted

lemma propagates_run_action: "propagates w (run_action w p a)"
  by (cases a) (simp_all add: handler_defs Let_def propagates_intros)

lemma sent_urls_call_checked_json: "sent_urls (fst (call w req checked_json)) = [url req]"
  by (simp add: call_def checked_json_def sent_urls_def split: reply.splits)

lemma authorized_token: "github_token (authorized t) = t"
  by (simp add: github_token_def authorized_def dict_get_def)

section \<open>Claims about the token broker and the handlers\<close>

text \<open>
  C1. After a successful exchange and a successful persist for GitHub, a handler should
  find the credential. Evaluated on the code: the callback with code \<open>abc\<close>, the
  provider answering 200 with an \<open>access_token\<close> and the durable backend answering 200,
  ends with the success response and the entry written to the dictionary of
  \<open>hackathon_utils.py\<close>; the dictionary of \<open>actions.py\<close> still has no entry for GitHub,
  and \<open>create_issue\<close> run on the resulting process raises the missing-token error
  without sending anything.
\<close>

theorem persisted_credential_not_read_by_handlers:
  "(case get_github_token (answering 200 ''OK'' (Some token_payload)) example_settings fresh
           (Some ''abc'') None of
      (p', evs, r) \<Rightarrow>
        r = Inr (JSONResponse 200 ''Authorization successful and data saved.'') \<and>
        hackathon_utils_authorization_data p' ''GitHub'' = Some [(''access_token'', JStr ''gho_abc'')] \<and>
        actions_authorization_data p' ''GitHub'' = None \<and>
        run_action (answering 200 ''OK'' (Some token_payload)) p' example_issue =
          ([], Inl (ValueError ''Authorization token for GitHub is missing.'')))"
  by (simp add: get_github_token_def world_defs exchange_request_def raise_for_status_def
        response_json_def save_defs token_payload_def fresh_def example_issue_def
        create_issue_def github_token_def dict_get_def missing_token_def)

text \<open>
  C2 (as amended). If the POST to the durable backend fails in transport, or its response
  has a status from 400 to 599, the process state is returned as it was (no dictionary is
  assigned to), the only effect is the POST itself, and the outcome is an
  \<open>HTTPException\<close>.
\<close>

theorem failed_persist_leaves_store:
  assumes "http w (save_request w cfg pl s) = Transport_failure \<or>
    (\<exists>r. http w (save_request w cfg pl s) = Response r \<and> 400 \<le> status_code r \<and> status_code r < 600)"
  shows "\<exists>sc detail. save_authorization_data_and_return_response w cfg p pl s =
     (p, [Sent (save_request w cfg pl s)], Inl (HTTPException sc detail))"
  using assms
  by (auto simp add: save_authorization_data_and_return_response_def Let_def raise_for_status_def
        save_http_error_def)

theorem failed_persist_leaves_store_witness:
  "save_authorization_data_and_return_response unreachable example_settings fresh token_payload ''GitHub'' =
     (fresh, [Sent (save_request unreachable example_settings token_payload ''GitHub'')],
      Inl (HTTPException 500 ''Error occurred while saving authorization data''))
   \<and> save_authorization_data_and_return_response (answering 500 ''Internal Server Error'' None)
        example_settings fresh token_payload ''GitHub'' =
     (fresh,
      [Sent (save_request (answering 500 ''Internal Server Error'' None) example_settings token_payload ''GitHub'')],
      Inl (HTTPException 502 ''Server error while saving authorization data''))"
  using failed_persist_leaves_store [of unreachable example_settings token_payload "''GitHub''" fresh]
    failed_persist_leaves_store [of "answering 500 ''Internal Server Error'' None" example_settings
      token_payload "''GitHub''" fresh]
  by (simp add: world_defs save_authorization_data_and_return_response_def Let_def
        raise_for_status_def save_http_error_def)

text \<open>
  C2 as stated fails: the durable backend answers 304, a status that is not 2xx and that
  \<open>raise_for_status\<close> lets through. The entry for GitHub, absent before, is written,
  and the call returns a response object instead of raising.
\<close>

theorem failed_persist_counterexample:
  "hackathon_utils_authorization_data fresh ''GitHub'' = None \<and>
   save_authorization_data_and_return_response (answering 304 ''Not Modified'' None) example_settings
       fresh token_payload ''GitHub'' =
     (fresh\<lparr>hackathon_utils_authorization_data := [''GitHub'' \<mapsto> [(''access_token'', JStr ''gho_abc'')]]\<rparr>,
      [Sent (save_request (answering 304 ''Not Modified'' None) example_settings token_payload ''GitHub''),
       Wrote ''GitHub'' [(''access_token'', JStr ''gho_abc'')]],
      Inr (JSONResponse 304 ''Unexpected response: 304''))"
  by (simp add: world_defs save_authorization_data_and_return_response_def Let_def
        raise_for_status_def token_payload_def fresh_def str_int_304)

text \<open>
  C3. If the dictionary that the handlers read has no entry for GitHub, every registered
  action, with any arguments, raises
  \<open>ValueError("Authorization token for GitHub is missing.")\<close> and sends no request:
  the run has no events at all.
\<close>

theorem missing_credential_raises_before_any_request:
  "actions_authorization_data p ''GitHub'' = None \<Longrightarrow>
     run_action w p a = ([], Inl (ValueError ''Authorization token for GitHub is missing.''))"
  using no_token_no_call [of p w a]
  by (simp add: github_token_def dict_get_def missing_token_def)

theorem missing_credential_raises_before_any_request_witness:
  "actions_authorization_data fresh ''GitHub'' = None \<and>
   run_action (answering 200 ''OK'' None) fresh (Delete_file ''a/b'' ''README.md'' ''main'' ''Delete file'')
     = ([], Inl (ValueError ''Authorization token for GitHub is missing.''))"
  using missing_credential_raises_before_any_request
    [of fresh "answering 200 ''OK'' None" "Delete_file ''a/b'' ''README.md'' ''main'' ''Delete file''"]
  by (simp add: fresh_def)

text \<open>
  C4 (as amended). On the Todoist callback the error codes \<open>access_denied\<close>,
  \<open>invalid_scope\<close> and \<open>invalid_application_status\<close> end the attempt with
  \<open>HTTPException\<close> 403, 400 and 500; on the GitHub callback \<open>access_denied\<close> ends it
  with 403, and any other error code with an absent or empty \<open>code\<close> ends it with 400
  "Authorization code is missing". In each of these cases nothing is sent and the process
  state is unchanged.
\<close>

theorem callback_error_rejected:
  "get_todoist_token w cfg p code state (Some ''access_denied'') =
     (p, [], Inl (HTTPException 403 ''User denied authorization''))
 \<and> get_todoist_token w cfg p code state (Some ''invalid_scope'') =
     (p, [], Inl (HTTPException 400 ''Invalid scope''))
 \<and> get_todoist_token w cfg p code state (Some ''invalid_application_status'') =
     (p, [], Inl (HTTPException 500 ''Invalid application status''))
 \<and> get_github_token w cfg p code (Some ''access_denied'') =
     (p, [], Inl (HTTPException 403 ''User denied authorization''))
 \<and> get_github_token w cfg p None err_code = 
     (p, [], Inl (if err_code = Some ''access_denied'' then HTTPException 403 ''User denied authorization''
                  else HTTPException 400 ''Authorization code is missing''))
 \<and> get_github_token w cfg p (Some '''') err_code = 
     (p, [], Inl (if err_code = Some ''access_denied'' then HTTPException 403 ''User denied authorization''
                  else HTTPException 400 ''Authorization code is missing''))"
  by (simp add: get_todoist_token_def get_github_token_def)

theorem callback_error_rejected_witness:
  "get_todoist_token unreachable example_settings fresh None None (Some ''invalid_scope'') =
     (fresh, [], Inl (HTTPException 400 ''Invalid scope''))
 \<and> get_github_token unreachable example_settings fresh (Some ''abc'') (Some ''access_denied'') =
     (fresh, [], Inl (HTTPException 403 ''User denied authorization''))"
  using callback_error_rejected [of unreachable example_settings fresh None None]
    callback_error_rejected [of unreachable example_settings fresh "Some ''abc''" None]
  by simp

text \<open>
  C4 as stated fails on the GitHub callback: with \<open>error=invalid_scope\<close> and a code
  present the exchange is attempted, the credential is stored and the attempt succeeds;
  with \<open>error=invalid_application_status\<close> and no code the error is 400, not 500.
\<close>

theorem callback_error_counterexample:
  "get_github_token (answering 200 ''OK'' (Some token_payload)) example_settings fresh
       (Some ''abc'') (Some ''invalid_scope'') =
     (fresh\<lparr>hackathon_utils_authorization_data := [''GitHub'' \<mapsto> [(''access_token'', JStr ''gho_abc'')]]\<rparr>,
      [Sent (exchange_request example_settings ''abc''),
       Sent (save_request (answering 200 ''OK'' (Some token_payload)) example_settings token_payload ''GitHub''),
       Wrote ''GitHub'' [(''access_token'', JStr ''gho_abc'')]],
      Inr (JSONResponse 200 ''Authorization successful and data saved.''))
  \<and> get_github_token (answering 200 ''OK'' (Some token_payload)) example_settings fresh
       None (Some ''invalid_application_status'') =
     (fresh, [], Inl (HTTPException 400 ''Authorization code is missing''))"
  by (simp add: get_github_token_def world_defs raise_for_status_def response_json_def
        save_authorization_data_and_return_response_def token_payload_def fresh_def Let_def)

text \<open>
  C5 (as amended). For a payload that is a JSON object without an \<open>access_token\<close>
  field, the call always ends with an error, sends only the POST to the durable backend,
  assigns to no dictionary and returns the process state as it was. When the backend's
  response passes \<open>raise_for_status\<close> (its status is outside 400 to 599), the error is
  \<open>ValueError("No access token found in authorization_data_response")\<close>; otherwise it
  is the \<open>HTTPException\<close> of the failed save.
\<close>

theorem tokenless_payload_fails:
  assumes "map_of kvs ''access_token'' = None"
  shows "\<exists>e. save_authorization_data_and_return_response w cfg p (JDict kvs) s =
             (p, [Sent (save_request w cfg (JDict kvs) s)], Inl e)
      \<and> (if (\<exists>r. http w (save_request w cfg (JDict kvs) s) = Response r \<and>
                  \<not> (400 \<le> status_code r \<and> status_code r < 600))
         then e = ValueError ''No access token found in authorization_data_response''
         else (\<exists>sc detail. e = HTTPException sc detail))"
  using assms
  by (auto simp add: save_authorization_data_and_return_response_def Let_def raise_for_status_def
        save_http_error_def split: reply.splits)

theorem tokenless_payload_fails_witness:
  "save_authorization_data_and_return_response (answering 200 ''OK'' None) example_settings fresh
       (JDict [(''token_type'', JStr ''bearer'')]) ''GitHub'' =
     (fresh,
      [Sent (save_request (answering 200 ''OK'' None) example_settings
               (JDict [(''token_type'', JStr ''bearer'')]) ''GitHub'')],
      Inl (ValueError ''No access token found in authorization_data_response''))"
  using tokenless_payload_fails [of "[(''token_type'', JStr ''bearer'')]" "answering 200 ''OK'' None"
      example_settings fresh "''GitHub''"]
  by (auto simp add: world_defs)

text \<open>
  C5 as stated fails: for a payload without \<open>access_token\<close> and a durable backend
  answering 500, the attempt ends with \<open>HTTPException\<close> 502 "Server error while saving
  authorization data", not with the "No access token found" error.
\<close>

theorem tokenless_payload_counterexample:
  "py_contains tokenless_payload ''access_token'' = Inr False \<and>
   save_authorization_data_and_return_response (answering 500 ''Internal Server Error'' None)
       example_settings fresh tokenless_payload ''GitHub'' =
     (fresh,
      [Sent (save_request (answering 500 ''Internal Server Error'' None) example_settings
               tokenless_payload ''GitHub'')],
      Inl (HTTPException 502 ''Server error while saving authorization data''))"
  by (simp add: world_defs save_authorization_data_and_return_response_def Let_def
        raise_for_status_def save_http_error_def tokenless_payload_def)

text \<open>
  C6 (as amended). For every registered action, with any arguments: if the response to a
  request that the run sent has a status from 400 to 599, then the run ends with the
  \<open>HTTPError\<close> that \<open>raise_for_status\<close> raises on that response, which carries its
  status and message; so no run returns a value after such a response.
\<close>

theorem provider_error_status_raises:
  assumes "run_action w p a = (evs, res)" and "Sent req \<in> set evs"
    and "http w req = Response r" and "400 \<le> status_code r" and "status_code r < 600"
  shows "\<exists>msg. raise_for_status r = Inl (HTTPError (status_code r) msg) \<and>
               res = Inl (HTTPError (status_code r) msg)"
proof -
  from assms(4,5) obtain msg where m: "raise_for_status r = Inl (HTTPError (status_code r) msg)"
    using raise_for_status_error by blast
  from propagates_run_action [of w p a] assms(1,2,3) m
  have "res = Inl (HTTPError (status_code r) msg)"
    by (auto simp add: propagates_def)
  with m show ?thesis by blast
qed

theorem provider_error_status_raises_witness:
  "run_action (answering 404 ''Not Found'' None) (authorized (JStr ''gho_abc'')) example_issue =
     ([Sent example_issue_request],
      Inl (HTTPError 404 ''404 Client Error: Not Found for url: https://api.github.com/repos/a/b/issues''))"
proof -
  let ?w = "answering 404 ''Not Found'' None"
  let ?r = "\<lparr> status_code = 404, reason = ''Not Found'',
             response_url = ''https://api.github.com/repos/a/b/issues'', content = None \<rparr>"
  let ?run = "run_action ?w (authorized (JStr ''gho_abc'')) example_issue"
  have events: "fst ?run = [Sent example_issue_request]"
    by (simp add: example_issue_def example_issue_request_def create_issue_def authorized_token
          github_headers_def api_def call_def checked_json_def world_defs opt_str_def opt_strs_def)
  have run: "?run = ([Sent example_issue_request], snd ?run)"
    using events by (metis prod.collapse)
  have sent: "Sent example_issue_request \<in> set [Sent example_issue_request]"
    by simp
  have reply: "http ?w example_issue_request = Response ?r"
    by (simp add: world_defs example_issue_request_def)
  have "\<exists>msg. raise_for_status ?r = Inl (HTTPError (status_code ?r) msg) \<and>
               snd ?run = Inl (HTTPError (status_code ?r) msg)"
    using provider_error_status_raises [OF run sent reply] by simp
  then have "snd ?run =
      Inl (HTTPError 404 ''404 Client Error: Not Found for url: https://api.github.com/repos/a/b/issues'')"
    by (auto simp add: raise_for_status_def http_error_msg_def str_int_404)
  with run show ?thesis by simp
qed

text \<open>
  C6 as stated fails: GitHub answers 304 to the PUT of \<open>star_repository\<close>, a status
  that is not a success and that \<open>raise_for_status\<close> lets through, and the handler
  returns the value \<open>{"message": "Failed to star repository."}\<close> instead of raising.
\<close>

theorem provider_error_status_counterexample:
  "http (answering 304 ''Not Modified'' None) example_star_request =
     Response \<lparr> status_code = 304, reason = ''Not Modified'',
                response_url = ''https://api.github.com/user/starred/a/b'', content = None \<rparr> \<and>
   run_action (answering 304 ''Not Modified'' None) (authorized (JStr ''gho_abc''))
       (Star_repository ''a/b'') =
     ([Sent example_star_request], Inr (JDict [(''message'', JStr ''Failed to star repository.'')]))"
  by (simp add: example_star_request_def star_repository_def authorized_token github_headers_def
        api_def call_def checked_message_def raise_for_status_def message_def world_defs)

text \<open>
  C7. When the call returns a response (it does not raise) for system name \<open>s\<close> and a
  payload whose \<open>access_token\<close> is \<open>t\<close>, the dictionary of \<open>hackathon_utils.py\<close>
  afterwards is the old one with \<open>s\<close> mapped to exactly \<open>{"access_token": t}\<close>: the
  entry for \<open>s\<close> is that one-field dictionary whatever it was before, every other entry
  is as before, the other dictionary is untouched, and the run has exactly one assignment.
\<close>

theorem successful_persist_writes_one_entry:
  assumes "save_authorization_data_and_return_response w cfg p (JDict kvs) s = (p', evs, Inr resp)"
    and "map_of kvs ''access_token'' = Some t"
  shows "hackathon_utils_authorization_data p' =
           (hackathon_utils_authorization_data p)(s \<mapsto> [(''access_token'', t)])
       \<and> hackathon_utils_authorization_data p' s = Some [(''access_token'', t)]
       \<and> (\<forall>s'. s' \<noteq> s \<longrightarrow>
             hackathon_utils_authorization_data p' s' = hackathon_utils_authorization_data p s')
       \<and> actions_authorization_data p' = actions_authorization_data p
       \<and> writes evs = [(s, [(''access_token'', t)])]"
  using assms
  by (auto simp add: save_authorization_data_and_return_response_def Let_def writes_def
        split: reply.splits sum.splits error.splits if_splits)

theorem successful_persist_writes_one_entry_witness:
  "(case save_authorization_data_and_return_response (answering 200 ''OK'' None) example_settings
           previously_authorized
           (JDict [(''access_token'', JStr ''gho_abc''), (''token_type'', JStr ''bearer'')]) ''GitHub'' of
      (p', evs, r) \<Rightarrow>
        r = Inr (JSONResponse 200 ''Authorization successful and data saved.'') \<and>
        hackathon_utils_authorization_data p' ''GitHub'' = Some [(''access_token'', JStr ''gho_abc'')] \<and>
        hackathon_utils_authorization_data p' ''Todoist'' = Some [(''access_token'', JStr ''td_old'')] \<and>
        writes evs = [(''GitHub'', [(''access_token'', JStr ''gho_abc'')])])"
proof -
  let ?kvs = "[(''access_token'', JStr ''gho_abc''), (''token_type'', JStr ''bearer'')]"
  let ?run = "save_authorization_data_and_return_response (answering 200 ''OK'' None) example_settings
                previously_authorized (JDict ?kvs) ''GitHub''"
  have result: "snd (snd ?run) = Inr (JSONResponse 200 ''Authorization successful and data saved.'')"
    by (simp add: save_defs world_defs raise_for_status_def)
  then have run: "?run = (fst ?run, fst (snd ?run),
                    Inr (JSONResponse 200 ''Authorization successful and data saved.''))"
    by (metis prod.collapse)
  have tok: "map_of ?kvs ''access_token'' = Some (JStr ''gho_abc'')"
    by simp
  have old: "hackathon_utils_authorization_data previously_authorized ''Todoist'' =
               Some [(''access_token'', JStr ''td_old'')]"
    by (simp add: previously_authorized_def)
  from successful_persist_writes_one_entry [OF run tok] old result
  show ?thesis
    by (simp add: case_prod_beta)
qed

text \<open>
  C8. With a credential present, \<open>create_issue\<close> and \<open>get_issue\<close> send their request
  to a URL built from the \<open>repo\<close> argument as it is, while \<open>update_issue\<close> and
  \<open>get_repository_info\<close> put the owner \<open>Fugaret/\<close> in front of it; for the same
  \<open>repo\<close> and issue number, \<open>get_issue\<close> and \<open>update_issue\<close> address different URLs.
\<close>

theorem repository_owner_inconsistent:
  assumes "truthy (github_token p)"
  shows "sent_urls (fst (create_issue w p r title body labels)) =
           [''https://api.github.com/repos/'' @ r @ ''/issues'']
       \<and> sent_urls (fst (get_issue w p r n)) =
           [''https://api.github.com/repos/'' @ r @ ''/issues/'' @ str_int n]
       \<and> sent_urls (fst (update_issue w p r n new_title new_body new_state assignees)) =
           [''https://api.github.com/repos/Fugaret/'' @ r @ ''/issues/'' @ str_int n]
       \<and> sent_urls (fst (get_repository_info w p r)) =
           [''https://api.github.com/repos/Fugaret/'' @ r]
       \<and> sent_urls (fst (get_issue w p r n)) \<noteq>
           sent_urls (fst (update_issue w p r n new_title new_body new_state assignees))"
proof -
  have "r @ ''/issues/'' @ str_int n \<noteq> ''Fugaret/'' @ r @ ''/issues/'' @ str_int n"
  proof
    assume "r @ ''/issues/'' @ str_int n = ''Fugaret/'' @ r @ ''/issues/'' @ str_int n"
    then have "length (r @ ''/issues/'' @ str_int n) = length (''Fugaret/'' @ r @ ''/issues/'' @ str_int n)"
      by (rule arg_cong)
    then show False by simp
  qed
  with assms show ?thesis
    by (simp add: create_issue_def get_issue_def update_issue_def get_repository_info_def Let_def
          sent_urls_call_checked_json api_def)
qed

theorem repository_owner_inconsistent_witness:
  "sent_urls (fst (create_issue unreachable (authorized (JStr ''gho_abc'')) ''a/b'' ''t'' None None)) =
     [''https://api.github.com/repos/a/b/issues'']
 \<and> sent_urls (fst (get_repository_info unreachable (authorized (JStr ''gho_abc'')) ''a/b'')) =
     [''https://api.github.com/repos/Fugaret/a/b'']"
  using repository_owner_inconsistent [of "authorized (JStr ''gho_abc'')" unreachable "''a/b''" "''t''" None None]
  by (simp add: authorized_token)

text \<open>
  C9. For a payload that is a JSON object without an \<open>access_token\<close> field and a durable
  backend that answers the POST with a 2xx status, the run consists of that POST, whose
  body carries the serialised payload under \<open>authorization_data_json\<close>, and then fails
  with \<open>ValueError("No access token found in authorization_data_response")\<close>, the
  process state unchanged: the backend has received the payload that the local dictionary
  never gets.
\<close>

theorem tokenless_payload_sent_before_validation:
  assumes "map_of kvs ''access_token'' = None"
    and "http w (save_request w cfg (JDict kvs) s) = Response r"
    and "200 \<le> status_code r" and "status_code r < 300"
  shows "save_authorization_data_and_return_response w cfg p (JDict kvs) s =
     (p, [Sent (save_request w cfg (JDict kvs) s)],
      Inl (ValueError ''No access token found in authorization_data_response''))
    \<and> http_method (save_request w cfg (JDict kvs) s) = POST
    \<and> url (save_request w cfg (JDict kvs) s) = save_auth_data_endpoint cfg
    \<and> payload (save_request w cfg (JDict kvs) s) = Json_payload (JDict
         [(''system_name'', JStr s), (''authorization_data_json'', JStr (json_dumps w (JDict kvs)))])"
  using assms
  by (simp add: save_authorization_data_and_return_response_def Let_def raise_for_status_def
        save_request_def)

theorem tokenless_payload_sent_before_validation_witness:
  "save_authorization_data_and_return_response (answering 201 ''Created'' None) example_settings fresh
       (JDict [(''error'', JStr ''bad_verification_code'')]) ''GitHub'' =
     (fresh,
      [Sent \<lparr> http_method = POST, url = ''https://backend.example/save-authorization-data'',
              headers = [(''Authorization'', ''Bearer bot-token'')], params = [],
              payload = Json_payload (JDict
                [(''system_name'', JStr ''GitHub''), (''authorization_data_json'', JStr ''{}'')]) \<rparr>],
      Inl (ValueError ''No access token found in authorization_data_response''))"
  using tokenless_payload_sent_before_validation
    [of "[(''error'', JStr ''bad_verification_code'')]" "answering 201 ''Created'' None" example_settings
        "''GitHub''" "\<lparr> status_code = 201, reason = ''Created'',
              response_url = ''https://backend.example/save-authorization-data'', content = None \<rparr>" fresh]
  by (simp add: world_defs save_request_def example_settings_def)

text \<open>
  C10. If the dictionary that the handlers read maps GitHub to an entry whose
  \<open>access_token\<close> is the empty string, or to an entry without the key \<open>access_token\<close>,
  every registered action raises the same
  \<open>ValueError("Authorization token for GitHub is missing.")\<close> as with no entry, and
  sends no request.
\<close>

theorem falsy_credential_is_missing:
  assumes "actions_authorization_data p ''GitHub'' = Some entry"
    and "map_of entry ''access_token'' = Some (JStr '''') \<or> map_of entry ''access_token'' = None"
  shows "run_action w p a = ([], Inl (ValueError ''Authorization token for GitHub is missing.''))"
  using assms no_token_no_call [of p w a]
  by (auto simp add: github_token_def dict_get_def missing_token_def)

theorem falsy_credential_is_missing_witness:
  "run_action (answering 200 ''OK'' None) (authorized (JStr '''')) example_issue =
     ([], Inl (ValueError ''Authorization token for GitHub is missing.''))
 \<and> run_action (answering 200 ''OK'' None)
      (fresh\<lparr>actions_authorization_data := [''GitHub'' \<mapsto> [(''token_type'', JStr ''bearer'')]]\<rparr>)
      (Create_repository ''demo'' None False) =
     ([], Inl (ValueError ''Authorization token for GitHub is missing.''))"
  using falsy_credential_is_missing
      [of "authorized (JStr '''')" "[(''access_token'', JStr '''')]" "answering 200 ''OK'' None" example_issue]
    falsy_credential_is_missing
      [of "fresh\<lparr>actions_authorization_data := [''GitHub'' \<mapsto> [(''token_type'', JStr ''bearer'')]]\<rparr>"
          "[(''token_type'', JStr ''bearer'')]" "answering 200 ''OK'' None" "Create_repository ''demo'' None False"]
  by (simp add: authorized_def)

end
